theory Spec2Isabelle
  imports Complex_Main "HOL-Library.Log_Nat"
begin

section \<open>Data model\<close>

text \<open>
  The two strategies (\<^verbatim>\<open>long_strat.py\<close> and \<^verbatim>\<open>long_and_short_strat.py\<close>) are
  classes of the same name with the same attributes. The floats the callbacks read (cash,
  prices, the prediction, executed amounts, profit and loss) are finite and are given by
  their exact values, which are real numbers; what float arithmetic makes of them (a
  rounded quotient, an infinity) is modelled where the code computes, in the section on
  Python's floats. Position sizes and order quantities are Python ints.
\<close>

datatype py_error = ZeroDivisionError | OverflowError | ValueError

text \<open>The statuses of an order of the host framework, in its own order.\<close>

datatype order_status =
  Created | Submitted | Accepted | Partial | Completed | Canceled | Expired | Margin | Rejected

text \<open>What the strategy asks of the broker: \<^verbatim>\<open>self.buy(size=n)\<close>,
  \<^verbatim>\<open>self.sell(size=n)\<close>, \<^verbatim>\<open>self.close()\<close>.\<close>

datatype intent = BUY int | SELL int | CLOSE

record date =
  year :: nat
  month :: nat
  day :: nat

text \<open>The current bar of \<^verbatim>\<open>self.datas[0]\<close>.\<close>

record bar =
  data_predicted :: real
  data_open :: real
  data_close :: real
  datetime :: date

text \<open>The order passed to \<^verbatim>\<open>notify_order\<close>.\<close>

record order_note =
  status :: order_status
  isbuy :: bool
  executed_price :: real
  executed_value :: real
  executed_comm :: real

text \<open>The trade passed to \<^verbatim>\<open>notify_trade\<close>.\<close>

record trade =
  isclosed :: bool
  pnl :: real
  pnlcomm :: real

text \<open>The broker's side: \<^verbatim>\<open>self.broker.getcash()\<close> and \<^verbatim>\<open>self.position.size\<close>.\<close>

record account =
  cash :: real
  position_size :: int

text \<open>The attributes set by \<^verbatim>\<open>__init__\<close>: \<^verbatim>\<open>self.order\<close>, \<^verbatim>\<open>self.price\<close>,
  \<^verbatim>\<open>self.comm\<close>, each \<^verbatim>\<open>None\<close> at first.\<close>

record strategy =
  order :: "nat option"
  price :: "real option"
  comm :: "real option"

text \<open>
  Everything a callback can read or change: the strategy's attributes, the broker's
  account, the requests the broker has received (oldest first) and the lines printed
  (oldest first).
\<close>

record world =
  strat :: strategy
  acct :: account
  requests :: "intent list"
  out :: "string list"

section \<open>Python's conversions\<close>

definition digit_char :: "nat \<Rightarrow> char" where
  "digit_char d =
     (if d = 0 then CHR ''0'' else if d = 1 then CHR ''1'' else if d = 2 then CHR ''2''
      else if d = 3 then CHR ''3'' else if d = 4 then CHR ''4'' else if d = 5 then CHR ''5''
      else if d = 6 then CHR ''6'' else if d = 7 then CHR ''7'' else if d = 8 then CHR ''8''
      else CHR ''9'')"

fun str_nat :: "nat \<Rightarrow> string" where
  "str_nat n = (if n < 10 then [digit_char n] else str_nat (n div 10) @ [digit_char (n mod 10)])"

text \<open>\<^verbatim>\<open>str(i)\<close> of an int, as an f-string field \<^verbatim>\<open>{i}\<close> prints it.\<close>

definition str_int :: "int \<Rightarrow> string" where
  "str_int i = (if i < 0 then ''-'' @ str_nat (nat (- i)) else str_nat (nat i))"

text \<open>Rounding to the nearest integer, a tie going to the even neighbour.\<close>

definition round_half_even :: "real \<Rightarrow> int" where
  "round_half_even x =
     (let f = \<lfloor>x\<rfloor>; d = x - of_int f
      in if d < 1 / 2 then f else if 1 / 2 < d then f + 1 else if even f then f else f + 1)"

text \<open>The f-string field \<^verbatim>\<open>{x:.2f}\<close>: sign, integer part, point, two digits.\<close>

definition fmt2f :: "real \<Rightarrow> string" where
  "fmt2f x =
     (let n = nat (round_half_even (\<bar>x\<bar> * 100))
      in (if x < 0 then ''-'' else '''') @ str_nat (n div 100) @ ''.''
         @ [digit_char ((n div 10) mod 10), digit_char (n mod 10)])"

text \<open>\<^verbatim>\<open>date.isoformat()\<close>: \<^verbatim>\<open>YYYY-MM-DD\<close>, padded with zeros.\<close>

definition zpad :: "nat \<Rightarrow> string \<Rightarrow> string" where
  "zpad k s = replicate (k - length s) CHR ''0'' @ s"

definition isoformat :: "date \<Rightarrow> string" where
  "isoformat d = zpad 4 (str_nat (year d)) @ ''-'' @ zpad 2 (str_nat (month d)) @ ''-''
     @ zpad 2 (str_nat (day d))"

section \<open>Python's floats\<close>

text \<open>
  A Python float is an IEEE 754 double: a finite value, an infinity or a NaN. The sign of
  an infinity plays no part below.
\<close>

datatype pyfloat = Finite real | Infinity | NaN

text \<open>The exponent of the leading bit of \<open>x \<noteq> 0\<close>: \<open>2 ^ k \<le> |x| < 2 ^ (k + 1)\<close>.\<close>

definition lead_exp :: "real \<Rightarrow> int" where
  "lead_exp x =
     (if 1 \<le> \<bar>x\<bar> then bitlen \<lfloor>\<bar>x\<bar>\<rfloor> - 1 else - bitlen (\<lceil>1 / \<bar>x\<bar>\<rceil> - 1))"

text \<open>
  Rounding a real to the nearest double, a tie going to the even significand: 53
  significant bits, the smallest spacing \<open>2 ^ -1074\<close>, and an infinity from
  \<open>2 ^ 1024\<close> on. Float arithmetic returns the exact result rounded this way.
\<close>

definition fl :: "real \<Rightarrow> pyfloat" where
  "fl x =
     (if x = 0 then Finite 0
      else
        let e = max (lead_exp x - 52) (- 1074);
            r = of_int (round_half_even (x / 2 powi e)) * 2 powi e
        in if 2 ^ 1024 \<le> \<bar>r\<bar> then Infinity else Finite r)"

text \<open>The reals that are values of doubles: rounding leaves them as they are.\<close>

definition is_double :: "real \<Rightarrow> bool" where
  "is_double x = (fl x = Finite x)"

text \<open>\<^verbatim>\<open>x / y\<close> on floats: a zero divisor raises, whatever the dividend.\<close>

definition float_div :: "pyfloat \<Rightarrow> pyfloat \<Rightarrow> py_error + pyfloat" where
  "float_div x y =
     (case y of
        Finite p \<Rightarrow>
          if p = 0 then Inl ZeroDivisionError
          else (case x of
                  Finite c \<Rightarrow> Inr (fl (c / p))
                | Infinity \<Rightarrow> Inr Infinity
                | NaN \<Rightarrow> Inr NaN)
      | Infinity \<Rightarrow>
          (case x of Finite c \<Rightarrow> Inr (Finite 0) | Infinity \<Rightarrow> Inr NaN | NaN \<Rightarrow> Inr NaN)
      | NaN \<Rightarrow> Inr NaN)"

text \<open>\<^verbatim>\<open>int(x)\<close> of a float truncates towards zero; an infinity raises
  \<^verbatim>\<open>OverflowError\<close> and a NaN \<^verbatim>\<open>ValueError\<close>.\<close>

definition py_int :: "pyfloat \<Rightarrow> py_error + int" where
  "py_int x =
     (case x of
        Finite q \<Rightarrow> Inr (if 0 \<le> q then \<lfloor>q\<rfloor> else \<lceil>q\<rceil>)
      | Infinity \<Rightarrow> Inl OverflowError
      | NaN \<Rightarrow> Inl ValueError)"

section \<open>Position sizing\<close>

text \<open>
  \<^verbatim>\<open>size = int(self.broker.getcash() / self.datas[0].open)\<close>
  (\<^verbatim>\<open>long_strat.py\<close> line 105, \<^verbatim>\<open>long_and_short_strat.py\<close> line 96), on the finite
  floats \<open>c\<close> and \<open>p\<close>.
\<close>

definition all_in_size :: "real \<Rightarrow> real \<Rightarrow> py_error + int" where
  "all_in_size c p =
     (case float_div (Finite c) (Finite p) of Inl e \<Rightarrow> Inl e | Inr q \<Rightarrow> py_int q)"

section \<open>What both strategies share with the host\<close>

text \<open>
  The broker belongs to the host framework, not to this repository. Its reaction to a
  request is the parameter \<open>settle\<close>: what the account is once the request has been
  handed over. A request is appended to the list of those received.
\<close>

definition submit :: "(intent \<Rightarrow> account \<Rightarrow> account) \<Rightarrow> intent \<Rightarrow> world \<Rightarrow> world" where
  "submit settle i w = w\<lparr>acct := settle i (acct w), requests := requests w @ [i]\<rparr>"

definition buy :: "(intent \<Rightarrow> account \<Rightarrow> account) \<Rightarrow> int \<Rightarrow> world \<Rightarrow> world" where
  "buy settle n w = submit settle (BUY n) w"

definition sell :: "(intent \<Rightarrow> account \<Rightarrow> account) \<Rightarrow> int \<Rightarrow> world \<Rightarrow> world" where
  "sell settle n w = submit settle (SELL n) w"

definition close :: "(intent \<Rightarrow> account \<Rightarrow> account) \<Rightarrow> world \<Rightarrow> world" where
  "close settle w = submit settle CLOSE w"

text \<open>A broker that only queues requests, and one that settles a request at once at a
  given price; both are used in the examples.\<close>

definition queue_only :: "intent \<Rightarrow> account \<Rightarrow> account" where
  "queue_only i a = a"

fun settle_at :: "real \<Rightarrow> intent \<Rightarrow> account \<Rightarrow> account" where
  "settle_at p (BUY n) a =
     \<lparr>cash = cash a - of_int n * p, position_size = position_size a + n\<rparr>"
| "settle_at p (SELL n) a =
     \<lparr>cash = cash a + of_int n * p, position_size = position_size a - n\<rparr>"
| "settle_at p CLOSE a =
     \<lparr>cash = cash a + of_int (position_size a) * p, position_size = 0\<rparr>"

text \<open>
  An f-string field \<^verbatim>\<open>{x}\<close> of a float prints its shortest representation, which
  has no counterpart on real numbers: it is the parameter \<open>repr\<close>. The examples use
  floats with whole values, printed as \<^verbatim>\<open>10.0\<close>.
\<close>

definition repr_whole :: "real \<Rightarrow> string" where
  "repr_whole x = str_int \<lfloor>x\<rfloor> @ ''.0''"

section \<open>The long-only strategy (\<^verbatim>\<open>long_strat.py\<close>)\<close>

definition long_log :: "bar \<Rightarrow> string \<Rightarrow> world \<Rightarrow> world" where
  "long_log b txt w = w\<lparr>out := out w @ [isoformat (datetime b) @ '', '' @ txt]\<rparr>"

definition long_notify_order :: "bar \<Rightarrow> order_note \<Rightarrow> world \<Rightarrow> world" where
  "long_notify_order b ord w =
     (if status ord \<in> set [Submitted, Accepted] then w
      else
        let w1 =
          (if status ord \<in> set [Completed] then
             (if isbuy ord then
                let w2 = long_log b (''BUY EXECUTED --- Price: '' @ fmt2f (executed_price ord)
                           @ '', Cost: '' @ fmt2f (executed_value ord)
                           @ '', Commission: '' @ fmt2f (executed_comm ord)) w
                in w2\<lparr>strat := (strat w2)\<lparr>price := Some (executed_price ord),
                                           comm := Some (executed_comm ord)\<rparr>\<rparr>
              else long_log b (''SELL EXECUTED --- Price: '' @ fmt2f (executed_price ord)
                     @ '', Cost: '' @ fmt2f (executed_value ord)
                     @ '', Commission: '' @ fmt2f (executed_comm ord)) w)
           else if status ord \<in> set [Canceled, Margin, Rejected] then
             long_log b ''Order Failed'' w
           else w)
        in w1\<lparr>strat := (strat w1)\<lparr>order := None\<rparr>\<rparr>)"

definition long_notify_trade :: "bar \<Rightarrow> trade \<Rightarrow> world \<Rightarrow> world" where
  "long_notify_trade b t w =
     (if \<not> isclosed t then w
      else long_log b (''OPERATION RESULT --- Gross: '' @ fmt2f (pnl t)
             @ '', Net: '' @ fmt2f (pnlcomm t)) w)"

definition long_next_open ::
  "(intent \<Rightarrow> account \<Rightarrow> account) \<Rightarrow> (real \<Rightarrow> string) \<Rightarrow> bar \<Rightarrow> world \<Rightarrow> py_error + world" where
  "long_next_open settle repr b w =
     (if position_size (acct w) = 0 then
        (if data_predicted b > 0 then
           (case all_in_size (cash (acct w)) (data_open b) of
              Inl e \<Rightarrow> Inl e
            | Inr sz \<Rightarrow>
                let w1 = long_log b (''LONG CREATED --- Size: '' @ str_int sz
                           @ '', Cash: '' @ fmt2f (cash (acct w))
                           @ '', Open: '' @ repr (data_open b)
                           @ '', Close: '' @ repr (data_close b)) w
                in Inr (buy settle sz w1))
         else Inr w)
      else
        (if data_predicted b < 0 then
           let w1 = long_log b (''SELL CREATED --- Size: '' @ str_int (position_size (acct w))) w
           in Inr (sell settle (position_size (acct w1)) w1)
         else Inr w))"

section \<open>The long-and-short strategy (\<^verbatim>\<open>long_and_short_strat.py\<close>)\<close>

definition ls_log :: "bar \<Rightarrow> string \<Rightarrow> world \<Rightarrow> world" where
  "ls_log b txt w = w\<lparr>out := out w @ [isoformat (datetime b) @ '', '' @ txt]\<rparr>"

definition ls_notify_order :: "bar \<Rightarrow> order_note \<Rightarrow> world \<Rightarrow> world" where
  "ls_notify_order b ord w =
     (if status ord \<in> set [Submitted, Accepted] then w
      else
        let w1 =
          (if status ord \<in> set [Canceled, Margin, Rejected] then ls_log b ''Order Failed'' w
           else w)
        in w1\<lparr>strat := (strat w1)\<lparr>order := None\<rparr>\<rparr>)"

definition ls_notify_trade :: "bar \<Rightarrow> trade \<Rightarrow> world \<Rightarrow> world" where
  "ls_notify_trade b t w =
     (if \<not> isclosed t then w
      else ls_log b (''OPERATION RESULT --- Gross: '' @ fmt2f (pnl t)
             @ '', Net: '' @ fmt2f (pnlcomm t)) w)"

text \<open>The size is computed first, on every call, from the cash at that moment.\<close>

definition ls_next_open ::
  "(intent \<Rightarrow> account \<Rightarrow> account) \<Rightarrow> (real \<Rightarrow> string) \<Rightarrow> bar \<Rightarrow> world \<Rightarrow> py_error + world" where
  "ls_next_open settle repr b w =
     (case all_in_size (cash (acct w)) (data_open b) of
        Inl e \<Rightarrow> Inl e
      | Inr sz \<Rightarrow>
          if position_size (acct w) = 0 then
            (if data_predicted b > 0 then
               let w1 = ls_log b (''LONG CREATED --- Size: '' @ str_int sz
                          @ '', Cash: '' @ fmt2f (cash (acct w))
                          @ '', Open: '' @ repr (data_open b)
                          @ '', Close: '' @ repr (data_close b)) w
               in Inr (buy settle sz w1)
             else if data_predicted b < 0 then
               let w1 = ls_log b (''SHORT CREATED --- Size: '' @ str_int sz
                          @ '', Cash: '' @ fmt2f (cash (acct w))
                          @ '', Open: '' @ repr (data_open b)
                          @ '', Close: '' @ repr (data_close b)) w
               in Inr (sell settle sz w1)
             else Inr w)
          else if position_size (acct w) > 0 then
            (if data_predicted b < 0 then
               let w1 = ls_log b (''CLOSE LONG POSITION --- Size: ''
                          @ str_int (position_size (acct w))) w;
                   w2 = close settle w1
               in Inr (sell settle sz w2)
             else Inr w)
          else if position_size (acct w) < 0 then
            (if data_predicted b > 0 then
               let w1 = ls_log b (''CLOSE SHORT POSITION --- Size: ''
                          @ str_int \<bar>position_size (acct w)\<bar>) w;
                   w2 = close settle w1
               in Inr (buy settle sz w2)
             else Inr w)
          else Inr w)"

section \<open>Observing a call\<close>

text \<open>The requests a call added and the lines it printed; a call that raised added
  none (both strategies raise before they print or submit).\<close>

definition new_requests :: "world \<Rightarrow> py_error + world \<Rightarrow> intent list option" where
  "new_requests w r =
     (case r of Inl e \<Rightarrow> None | Inr w' \<Rightarrow> Some (drop (length (requests w)) (requests w')))"

definition new_lines :: "world \<Rightarrow> py_error + world \<Rightarrow> string list" where
  "new_lines w r = (case r of Inl e \<Rightarrow> [] | Inr w' \<Rightarrow> drop (length (out w)) (out w'))"

text \<open>
  The message patterns of the specification, each field filled by the conversion the
  pattern names: \<^verbatim>\<open>{n}\<close> an int, \<^verbatim>\<open>{c:.2f}\<close> a float in the two-decimal format,
  \<^verbatim>\<open>{o}\<close> and \<^verbatim>\<open>{cl}\<close> a float as \<open>repr\<close> prints it. \<^verbatim>\<open>SHORT CREATED\<close> and
  \<^verbatim>\<open>SELL EXECUTED\<close> have the fields of their counterparts.
\<close>

definition spec_message :: "(real \<Rightarrow> string) \<Rightarrow> string \<Rightarrow> bool" where
  "spec_message repr m =
     ((\<exists>n c o' cl. m = ''LONG CREATED --- Size: '' @ str_int n @ '', Cash: '' @ fmt2f c
                      @ '', Open: '' @ repr o' @ '', Close: '' @ repr cl)
      \<or> (\<exists>n c o' cl. m = ''SHORT CREATED --- Size: '' @ str_int n @ '', Cash: '' @ fmt2f c
                      @ '', Open: '' @ repr o' @ '', Close: '' @ repr cl)
      \<or> (\<exists>n. m = ''CLOSE LONG POSITION --- Size: '' @ str_int n)
      \<or> (\<exists>n. m = ''CLOSE SHORT POSITION --- Size: '' @ str_int n)
      \<or> (\<exists>p c k. m = ''BUY EXECUTED --- Price: '' @ fmt2f p @ '', Cost: '' @ fmt2f c
                      @ '', Commission: '' @ fmt2f k)
      \<or> (\<exists>p c k. m = ''SELL EXECUTED --- Price: '' @ fmt2f p @ '', Cost: '' @ fmt2f c
                      @ '', Commission: '' @ fmt2f k)
      \<or> m = ''Order Failed''
      \<or> (\<exists>g n. m = ''OPERATION RESULT --- Gross: '' @ fmt2f g @ '', Net: '' @ fmt2f n))"

text \<open>The same with the pattern \<^verbatim>\<open>long_strat.py\<close> prints on leaving a position.\<close>

definition code_message :: "(real \<Rightarrow> string) \<Rightarrow> string \<Rightarrow> bool" where
  "code_message repr m =
     (spec_message repr m \<or> (\<exists>n. m = ''SELL CREATED --- Size: '' @ str_int n))"

text \<open>A log line: the ISO date of the bar, a comma, a space, and a message.\<close>

definition log_line :: "(string \<Rightarrow> bool) \<Rightarrow> bar \<Rightarrow> string \<Rightarrow> bool" where
  "log_line P b l = (\<exists>m. l = isoformat (datetime b) @ '', '' @ m \<and> P m)"

section \<open>Example inputs\<close>

definition day0 :: date where
  "day0 = \<lparr>year = 2024, month = 1, day = 2\<rparr>"

definition fresh :: strategy where
  "fresh = \<lparr>order = None, price = None, comm = None\<rparr>"

definition bar_of :: "real \<Rightarrow> real \<Rightarrow> bar" where
  "bar_of f p = \<lparr>data_predicted = f, data_open = p, data_close = p + 1, datetime = day0\<rparr>"

definition world_of :: "real \<Rightarrow> int \<Rightarrow> world" where
  "world_of c n =
     \<lparr>strat = fresh, acct = \<lparr>cash = c, position_size = n\<rparr>, requests = [], out = []\<rparr>"

text \<open>The doubles nearest to 0.1 and to 1.6.\<close>

definition double_0_1 :: real where
  "double_0_1 = 3602879701896397 / 2 ^ 55"

definition double_1_6 :: real where
  "double_1_6 = 3602879701896397 / 2 ^ 51"

definition order_of :: "order_status \<Rightarrow> bool \<Rightarrow> order_note" where
  "order_of s bu =
     \<lparr>status = s, isbuy = bu, executed_price = 101.5, executed_value = 10000,
      executed_comm = 5\<rparr>"

section \<open>Facts shared by the proofs\<close>

lemmas world_simps = submit_def buy_def sell_def close_def long_log_def ls_log_def
  new_requests_def new_lines_def
lemmas example_simps = bar_of_def world_of_def order_of_def day0_def fresh_def queue_only_def
  double_0_1_def double_1_6_def
lemmas print_simps = fmt2f_def round_half_even_def digit_char_def isoformat_def zpad_def
  str_int_def repr_whole_def
lemmas fl_eval = all_in_size_def float_div_def py_int_def fl_def is_double_def lead_exp_def
  round_half_even_def Let_def compute_bitlen

subsection \<open>Rounding to a double\<close>

lemma round_half_even_le: "y \<le> of_int n \<Longrightarrow> round_half_even y \<le> n"
proof -
  assume le: "y \<le> of_int n"
  then have f: "\<lfloor>y\<rfloor> \<le> n" by (simp add: floor_le_iff)
  show ?thesis
  proof (cases "\<lfloor>y\<rfloor> = n")
    case True
    then have "y - of_int \<lfloor>y\<rfloor> \<le> 0" using le by simp
    then show ?thesis using True by (simp add: round_half_even_def Let_def)
  next
    case False
    with f have "\<lfloor>y\<rfloor> + 1 \<le> n" by simp
    then show ?thesis by (auto simp: round_half_even_def Let_def)
  qed
qed

lemma round_half_even_ge: "of_int n \<le> y \<Longrightarrow> n \<le> round_half_even y"
proof -
  assume "of_int n \<le> y"
  then have "n \<le> \<lfloor>y\<rfloor>" by (simp add: le_floor_iff)
  then show ?thesis by (auto simp: round_half_even_def Let_def)
qed

lemma lead_exp_upper:
  assumes "x \<noteq> 0"
  shows "\<bar>x\<bar> < 2 powi (lead_exp x + 1)"
proof (cases "1 \<le> \<bar>x\<bar>")
  case True
  define a where "a = \<lfloor>\<bar>x\<bar>\<rfloor>"
  have a: "0 < a" using True by (simp add: a_def)
  have "\<bar>x\<bar> < of_int a + 1" by (simp add: a_def)
  also have "of_int a + 1 \<le> (2::real) ^ nat (bitlen a)"
  proof -
    have "a + 1 \<le> 2 ^ nat (bitlen a)" using bitlen_bounds [OF a] by simp
    then have "of_int (a + 1) \<le> (of_int (2 ^ nat (bitlen a)) :: real)" by (rule of_int_le_iff [THEN iffD2])
    then show ?thesis by simp
  qed
  also have "(2::real) ^ nat (bitlen a) = 2 powi (lead_exp x + 1)"
    using True bitlen_nonneg [of a] by (simp add: lead_exp_def a_def power_int_nonneg_exp)
  finally show ?thesis .
next
  case False
  define m where "m = \<lceil>1 / \<bar>x\<bar>\<rceil> - 1"
  have y: "1 < 1 / \<bar>x\<bar>" using False assms by simp
  then have m: "0 < m" by (simp add: m_def less_ceiling_iff)
  have j: "1 \<le> bitlen m" using m by (simp add: bitlen_alt_def)
  have "(2::real) ^ nat (bitlen m - 1) \<le> of_int m"
  proof -
    have "2 ^ nat (bitlen m - 1) \<le> m" using bitlen_bounds [OF m] by simp
    then have "(of_int (2 ^ nat (bitlen m - 1)) :: real) \<le> of_int m" by (rule of_int_le_iff [THEN iffD2])
    then show ?thesis by simp
  qed
  also have "of_int m < 1 / \<bar>x\<bar>" by (simp add: m_def) linarith
  finally have "(2::real) ^ nat (bitlen m - 1) < 1 / \<bar>x\<bar>" .
  then have "\<bar>x\<bar> < 1 / 2 ^ nat (bitlen m - 1)"
    using assms by (simp add: field_simps)
  also have "1 / (2::real) ^ nat (bitlen m - 1) = 2 powi (lead_exp x + 1)"
    using False j by (simp add: lead_exp_def m_def power_int_def field_simps)
  finally show ?thesis .
qed


lemma lead_exp_lower:
  assumes "1 \<le> \<bar>x\<bar>"
  shows "2 powi (lead_exp x) \<le> \<bar>x\<bar>"
proof -
  define a where "a = \<lfloor>\<bar>x\<bar>\<rfloor>"
  have a: "0 < a" using assms by (simp add: a_def)
  have j: "1 \<le> bitlen a" using a by (simp add: bitlen_alt_def)
  have "2 ^ nat (bitlen a - 1) \<le> a" using bitlen_bounds [OF a] by simp
  then have "(of_int (2 ^ nat (bitlen a - 1)) :: real) \<le> of_int a"
    by (rule of_int_le_iff [THEN iffD2])
  then have "(2::real) ^ nat (bitlen a - 1) \<le> of_int a" by simp
  also have "of_int a \<le> \<bar>x\<bar>" by (simp add: a_def)
  finally show ?thesis
    using assms j by (simp add: lead_exp_def a_def power_int_nonneg_exp)
qed

lemma lead_exp_below_one:
  assumes "x \<noteq> 0" and "\<bar>x\<bar> < 1"
  shows "lead_exp x \<le> - 1"
proof -
  have "1 < 1 / \<bar>x\<bar>" using assms by simp
  then have "0 < \<lceil>1 / \<bar>x\<bar>\<rceil> - 1" by (simp add: less_ceiling_iff)
  then have "1 \<le> bitlen (\<lceil>1 / \<bar>x\<bar>\<rceil> - 1)" by (simp add: bitlen_alt_def)
  then show ?thesis using assms by (simp add: lead_exp_def)
qed

text \<open>A double is an integer of fewer than 54 bits times a power of two.\<close>

lemma is_double_repr:
  assumes "is_double x"
  shows "\<exists>N e. x = of_int N * (2::real) powi e \<and> \<bar>N\<bar> < 2 ^ 53"
proof (cases "x = 0")
  case True
  then have "x = of_int 0 * (2::real) powi 0 \<and> \<bar>0::int\<bar> < 2 ^ 53" by simp
  then show ?thesis by blast
next
  case False
  define e where "e = max (lead_exp x - 52) (- 1074)"
  define N where "N = round_half_even (x / 2 powi e)"
  have pos: "0 < (2::real) powi e" by simp
  have "fl x = Finite x" using assms by (simp add: is_double_def)
  then have x: "x = of_int N * (2::real) powi e"
    using False by (simp add: fl_def Let_def e_def N_def split: if_splits)
  have "\<bar>x\<bar> < 2 powi (lead_exp x + 1)" using False by (rule lead_exp_upper)
  also have "(2::real) powi (lead_exp x + 1) \<le> 2 powi (e + 53)"
    by (rule power_int_increasing) (simp_all add: e_def)
  also have "(2::real) powi (e + 53) = 2 powi e * 2 ^ 53"
    by (simp add: power_int_add)
  finally have "\<bar>of_int N * (2::real) powi e\<bar> < 2 powi e * 2 ^ 53" using x by simp
  then have "\<bar>of_int N :: real\<bar> * 2 powi e < 2 ^ 53 * 2 powi e"
    by (simp add: abs_mult mult.commute)
  then have "\<bar>of_int N :: real\<bar> < 2 ^ 53" using pos by simp
  then have "\<bar>N\<bar> < 2 ^ 53"
    by (metis of_int_abs of_int_less_iff of_int_numeral of_int_power)
  with x show ?thesis by blast
qed

text \<open>Two distinct positive doubles differ by at least one part in 2^53 of the larger.\<close>

lemma double_gap:
  fixes c p :: real
  assumes c: "c = of_int N * 2 powi F" and p: "p = of_int M * 2 powi E"
    and N: "\<bar>N\<bar> < 2 ^ 53" and M: "\<bar>M\<bar> < 2 ^ 53"
    and pos: "0 < c" and lt: "c < p"
  shows "c / p \<le> 1 - 1 / 2 ^ 53"
proof -
  have "0 < of_int N * (2::real) powi F" using pos c by simp
  then have "0 < (of_int N :: real)" by (rule zero_less_mult_pos2) simp
  then have Npos: "0 < N" by simp
  have "0 < of_int M * (2::real) powi E" using pos lt p by simp
  then have "0 < (of_int M :: real)" by (rule zero_less_mult_pos2) simp
  then have Mpos: "0 < M" by simp
  show ?thesis
  proof (cases "F \<le> E")
    case True
    define M' where "M' = M * 2 ^ nat (E - F)"
    have "(2::real) powi E = 2 powi (E - F) * 2 powi F"
      by (simp flip: power_int_add)
    then have p': "p = of_int M' * 2 powi F"
      using True by (simp add: p M'_def power_int_nonneg_exp)
    have "of_int N * (2::real) powi F < of_int M' * 2 powi F" using lt c p' by simp
    then have "(of_int N :: real) < of_int M'" by simp
    then have NM: "N + 1 \<le> M'" by simp
    have "c / p = of_int N / of_int M'" using c p' by simp
    also have "\<dots> \<le> of_int N / of_int (N + 1)"
      using NM Npos by (intro divide_left_mono) (simp_all add: zero_less_mult_iff)
    also have "\<dots> = 1 - 1 / of_int (N + 1)"
      using Npos by (simp add: field_simps)
    also have "\<dots> \<le> 1 - 1 / 2 ^ 53"
    proof -
      have "N + 1 \<le> 2 ^ 53" using N by simp
      then have "(of_int (N + 1) :: real) \<le> of_int (2 ^ 53)" by (rule of_int_le_iff [THEN iffD2])
      then have "1 / (2::real) ^ 53 \<le> 1 / of_int (N + 1)"
        using Npos by (intro divide_left_mono) simp_all
      then show ?thesis by simp
    qed
    finally show ?thesis .
  next
    case False
    define N' where "N' = N * 2 ^ nat (F - E)"
    have "(2::real) powi F = 2 powi (F - E) * 2 powi E"
      by (simp flip: power_int_add)
    then have c': "c = of_int N' * 2 powi E"
      using False by (simp add: c N'_def power_int_nonneg_exp)
    have "of_int N' * (2::real) powi E < of_int M * 2 powi E" using lt c' p by simp
    then have "(of_int N' :: real) < of_int M" by simp
    then have NM: "N' \<le> M - 1" by simp
    have "c / p = of_int N' / of_int M" using c' p by simp
    also have "\<dots> \<le> of_int (M - 1) / of_int M"
      using NM Mpos by (intro divide_right_mono) simp_all
    also have "\<dots> = 1 - 1 / of_int M"
      using Mpos by (simp add: field_simps)
    also have "\<dots> \<le> 1 - 1 / 2 ^ 53"
    proof -
      have "M \<le> 2 ^ 53" using M by simp
      then have "(of_int M :: real) \<le> of_int (2 ^ 53)" by (rule of_int_le_iff [THEN iffD2])
      then have "1 / (2::real) ^ 53 \<le> 1 / of_int M"
        using Mpos by (intro divide_left_mono) simp_all
      then show ?thesis by simp
    qed
    finally show ?thesis .
  qed
qed


lemma trunc_zero_iff: "(if 0 \<le> q then \<lfloor>q\<rfloor> else \<lceil>q\<rceil>) = 0 \<longleftrightarrow> \<bar>q\<bar> < (1::real)"
  by (auto simp: floor_eq_iff ceiling_eq_iff)

lemma fl_below_one:
  assumes "\<bar>x\<bar> \<le> 1 - 1 / 2 ^ 53"
  shows "\<exists>q. fl x = Finite q \<and> \<bar>q\<bar> < 1 \<and> (0 \<le> x \<longrightarrow> 0 \<le> q)"
proof (cases "x = 0")
  case True
  then show ?thesis by (simp add: fl_def)
next
  case False
  define e where "e = max (lead_exp x - 52) (- 1074)"
  define n where "n = nat (- e)"
  define N where "N = round_half_even (x / 2 powi e)"
  define r where "r = of_int N * (2::real) powi e"
  have "(0::real) < 1 / 2 ^ 53" by simp
  with assms have x1: "\<bar>x\<bar> < 1" by linarith
  have "lead_exp x \<le> - 1" using False x1 by (rule lead_exp_below_one)
  then have e: "e \<le> - 53" by (simp add: e_def)
  then have n: "53 \<le> n" by (simp add: n_def)
  have pw: "(2::real) powi e = 1 / 2 ^ n"
    using e by (simp add: power_int_def n_def field_simps)
  have y: "x / 2 powi e = x * 2 ^ n" by (simp add: pw)
  have nn: "n = 53 + (n - 53)" using n by simp
  have "(2::real) ^ n = 2 ^ 53 * 2 ^ (n - 53)" by (subst nn) (rule power_add)
  then have big: "(2::real) ^ n / 2 ^ 53 = 2 ^ (n - 53)" by simp
  have one: "(1::real) \<le> 2 ^ (n - 53)" by simp
  have "\<bar>x\<bar> * 2 ^ n \<le> (1 - 1 / 2 ^ 53) * 2 ^ n"
    using assms by (intro mult_right_mono) simp_all
  also have "\<dots> = 2 ^ n - 2 ^ n / 2 ^ 53" by (simp add: algebra_simps)
  also have "\<dots> \<le> 2 ^ n - 1" using big one by simp
  finally have ab: "\<bar>x * 2 ^ n\<bar> \<le> 2 ^ n - 1" by (simp add: abs_mult)
  have up: "x * 2 ^ n \<le> of_int (2 ^ n - 1)" using ab by simp
  have lo: "of_int (- (2 ^ n - 1)) \<le> x * 2 ^ n" using ab by simp
  have Nup: "N \<le> 2 ^ n - 1" unfolding N_def y using up by (rule round_half_even_le)
  have Nlo: "- (2 ^ n - 1) \<le> N" unfolding N_def y using lo by (rule round_half_even_ge)
  have "\<bar>N\<bar> \<le> 2 ^ n - 1" using Nup Nlo by simp
  then have "(of_int \<bar>N\<bar> :: real) \<le> of_int (2 ^ n - 1)" by (rule of_int_le_iff [THEN iffD2])
  then have "\<bar>of_int N :: real\<bar> < 2 ^ n" by simp
  then have r1: "\<bar>r\<bar> < 1" by (simp add: r_def pw abs_mult field_simps)
  have rpos: "0 \<le> r" if "0 \<le> x"
  proof -
    have "of_int 0 \<le> x * 2 ^ n" using that by simp
    then have "0 \<le> N" unfolding N_def y by (rule round_half_even_ge)
    then show ?thesis by (simp add: r_def)
  qed
  have "(1::real) \<le> 2 ^ 1024" by (rule one_le_power) simp
  with r1 have "\<not> 2 ^ 1024 \<le> \<bar>r\<bar>" by linarith
  then have "fl x = Finite r"
    using False by (simp add: fl_def Let_def e_def N_def r_def)
  with r1 rpos show ?thesis by blast
qed

lemma fl_at_least_one:
  assumes "1 \<le> \<bar>x\<bar>"
  shows "fl x = Infinity \<or> (\<exists>q. fl x = Finite q \<and> 1 \<le> \<bar>q\<bar>)"
proof -
  define e where "e = max (lead_exp x - 52) (- 1074)"
  define N where "N = round_half_even (x / 2 powi e)"
  define r where "r = of_int N * (2::real) powi e"
  define k :: int where "k = (if e \<le> 0 then 2 ^ nat (- e) else 1)"
  have x0: "x \<noteq> 0" using assms by auto
  have pos: "0 < (2::real) powi e" by simp
  have kpos: "0 < k" by (simp add: k_def)
  have kp: "1 \<le> of_int k * (2::real) powi e"
  proof (cases "e \<le> 0")
    case True
    then show ?thesis by (simp add: k_def power_int_def field_simps)
  next
    case False
    then show ?thesis by (simp add: k_def)
  qed
  have ky: "of_int k \<le> \<bar>x / 2 powi e\<bar>"
  proof (cases "e \<le> 0")
    case True
    then have "x / 2 powi e = x * 2 ^ nat (- e)" by (simp add: power_int_def field_simps)
    moreover have "1 * (2::real) ^ nat (- e) \<le> \<bar>x\<bar> * 2 ^ nat (- e)"
      using assms by (intro mult_right_mono) simp_all
    ultimately show ?thesis using True by (simp add: k_def abs_mult)
  next
    case False
    then have "e = lead_exp x - 52" by (simp add: e_def max_def split: if_splits)
    then have "(2::real) powi e \<le> 2 powi (lead_exp x)" by (intro power_int_increasing) simp_all
    also have "\<dots> \<le> \<bar>x\<bar>" using assms by (rule lead_exp_lower)
    finally have "1 \<le> \<bar>x\<bar> / 2 powi e" using pos by (simp add: field_simps)
    then show ?thesis using False pos by (simp add: k_def abs_divide)
  qed
  have Nk: "k \<le> \<bar>N\<bar>"
  proof (cases "0 \<le> x")
    case True
    then have "of_int k \<le> x / 2 powi e" using ky pos by (simp add: abs_divide)
    then have "k \<le> N" unfolding N_def by (rule round_half_even_ge)
    then show ?thesis by simp
  next
    case False
    then have "x / 2 powi e \<le> of_int (- k)" using ky pos by (simp add: abs_divide field_simps)
    then have "N \<le> - k" unfolding N_def by (rule round_half_even_le)
    then show ?thesis by simp
  qed
  then have "(of_int k :: real) \<le> of_int \<bar>N\<bar>" by (rule of_int_le_iff [THEN iffD2])
  then have kN: "of_int k * (2::real) powi e \<le> \<bar>of_int N\<bar> * 2 powi e"
    using pos by (intro mult_right_mono) simp_all
  have "\<bar>r\<bar> = \<bar>of_int N\<bar> * 2 powi e" by (simp add: r_def abs_mult)
  with kp kN have r1: "1 \<le> \<bar>r\<bar>" by linarith
  have "fl x = (if 2 ^ 1024 \<le> \<bar>r\<bar> then Infinity else Finite r)"
    using x0 by (simp add: fl_def Let_def e_def N_def r_def)
  with r1 show ?thesis by auto
qed

lemma all_in_size_zero_price: "all_in_size c 0 = Inl ZeroDivisionError"
  by (simp add: all_in_size_def float_div_def)

lemma all_in_size_quotient:
  "p \<noteq> 0 \<Longrightarrow> all_in_size c p = py_int (fl (c / p))"
  by (simp add: all_in_size_def float_div_def)

lemma all_in_size_doubles_small:
  assumes "is_double c" and "is_double p" and "\<bar>c\<bar> < \<bar>p\<bar>"
  shows "all_in_size c p = Inr 0"
proof -
  have p0: "p \<noteq> 0" using assms(3) by auto
  have "\<bar>c / p\<bar> \<le> 1 - 1 / 2 ^ 53"
  proof (cases "c = 0")
    case True
    then show ?thesis by simp
  next
    case False
    obtain N F where c: "c = of_int N * 2 powi F" and N: "\<bar>N\<bar> < 2 ^ 53"
      using is_double_repr [OF assms(1)] by blast
    obtain M E where p: "p = of_int M * 2 powi E" and M: "\<bar>M\<bar> < 2 ^ 53"
      using is_double_repr [OF assms(2)] by blast
    have "\<bar>c\<bar> / \<bar>p\<bar> \<le> 1 - 1 / 2 ^ 53"
    proof (rule double_gap)
      show "\<bar>c\<bar> = of_int \<bar>N\<bar> * 2 powi F" by (simp add: c abs_mult)
      show "\<bar>p\<bar> = of_int \<bar>M\<bar> * 2 powi E" by (simp add: p abs_mult)
      show "\<bar>\<bar>N\<bar>\<bar> < 2 ^ 53" using N by simp
      show "\<bar>\<bar>M\<bar>\<bar> < 2 ^ 53" using M by simp
      show "0 < \<bar>c\<bar>" using False by simp
      show "\<bar>c\<bar> < \<bar>p\<bar>" by (rule assms(3))
    qed
    then show ?thesis by (simp add: abs_divide)
  qed
  then obtain q where "fl (c / p) = Finite q" and "\<bar>q\<bar> < 1"
    using fl_below_one by blast
  then show ?thesis
    using p0 by (simp add: all_in_size_quotient py_int_def trunc_zero_iff)
qed

lemma all_in_size_not_small:
  assumes "p \<noteq> 0" and "\<bar>p\<bar> \<le> \<bar>c\<bar>"
  shows "all_in_size c p \<noteq> Inr 0"
proof -
  have "1 \<le> \<bar>c / p\<bar>" using assms by (simp add: abs_divide)
  then consider "fl (c / p) = Infinity" | q where "fl (c / p) = Finite q" and "1 \<le> \<bar>q\<bar>"
    using fl_at_least_one by blast
  then show ?thesis
  proof cases
    case 1
    then show ?thesis using assms(1) by (simp add: all_in_size_quotient py_int_def)
  next
    case 2
    then have "\<not> \<bar>q\<bar> < 1" by simp
    then show ?thesis
      using 2(1) assms(1) by (simp add: all_in_size_quotient py_int_def trunc_zero_iff)
  qed
qed

text \<open>The quotient of two finite floats is never a NaN: it is finite or it overflows.\<close>

lemma fl_not_NaN: "fl x \<noteq> NaN"
  by (simp add: fl_def Let_def)



text \<open>Where the rounding of the quotient decides the size: the exact quotients are just
  below 1000 and 6250, the float quotients are 1000 and 6250.\<close>

lemma all_in_size_rounds_quotient:
  "\<lfloor>100 / double_0_1\<rfloor> = 999" "all_in_size 100 double_0_1 = Inr 1000"
  "\<lfloor>10000 / double_1_6\<rfloor> = 6249" "all_in_size 10000 double_1_6 = Inr 6250"
  by (simp_all add: fl_eval double_0_1_def double_1_6_def)

lemma small_doubles: "is_double 0" "is_double 5" "is_double 10" "is_double 33" "is_double 100"
  "is_double double_0_1" "is_double double_1_6"
  by (simp_all add: fl_eval double_0_1_def double_1_6_def)

subsection \<open>Printing\<close>

lemma round_half_even_close: "\<bar>of_int (round_half_even y) - y\<bar> \<le> 1 / 2"
  unfolding round_half_even_def Let_def by (auto simp: abs_le_iff)

lemma fmt2f_two_decimals:
  "\<exists>s d1 d2. fmt2f x = s @ [CHR ''.'', digit_char d1, digit_char d2] \<and> d1 < 10 \<and> d2 < 10"
proof -
  define n where "n = nat (round_half_even (\<bar>x\<bar> * 100))"
  have "fmt2f x = ((if x < 0 then ''-'' else '''') @ str_nat (n div 100))
      @ [CHR ''.'', digit_char ((n div 10) mod 10), digit_char (n mod 10)]"
    by (simp add: fmt2f_def n_def Let_def)
  moreover have "(n div 10) mod 10 < 10" "n mod 10 < 10" by simp_all
  ultimately show ?thesis by blast
qed

lemma length_str_nat: "n < 10 ^ Suc k \<Longrightarrow> length (str_nat n) \<le> Suc k"
proof (induction k arbitrary: n)
  case 0
  then show ?case by simp
next
  case (Suc k)
  show ?case
  proof (cases "n < 10")
    case True
    then show ?thesis by simp
  next
    case False
    have "n div 10 < 10 ^ Suc k"
      using Suc.prems by (simp add: less_mult_imp_div_less)
    then have "length (str_nat (n div 10)) \<le> Suc k"
      by (rule Suc.IH)
    with False show ?thesis
      by (subst str_nat.simps) (simp del: str_nat.simps)
  qed
qed

lemma length_str_nat_2: "n < 100 \<Longrightarrow> length (str_nat n) \<le> 2"
  using length_str_nat [of n 1] by simp

lemma length_str_nat_4: "n < 10000 \<Longrightarrow> length (str_nat n) \<le> 4"
  using length_str_nat [of n 3] by simp

lemma length_zpad: "length s \<le> k \<Longrightarrow> length (zpad k s) = k"
  by (simp add: zpad_def)

lemma isoformat_shape:
  assumes "year d < 10000" and "month d < 100" and "day d < 100"
  shows "length (isoformat d) = 10 \<and> isoformat d ! 4 = CHR ''-'' \<and> isoformat d ! 7 = CHR ''-''"
proof -
  have y: "length (zpad 4 (str_nat (year d))) = 4"
    using assms(1) by (intro length_zpad length_str_nat_4)
  have m: "length (zpad 2 (str_nat (month d))) = 2"
    using assms(2) by (intro length_zpad length_str_nat_2)
  have dd: "length (zpad 2 (str_nat (day d))) = 2"
    using assms(3) by (intro length_zpad length_str_nat_2)
  show ?thesis
    unfolding isoformat_def using y m dd by (simp add: nth_append del: str_nat.simps)
qed

subsection \<open>Log lines\<close>

lemma log_lineI:
  "P m \<Longrightarrow> log_line P b (isoformat (datetime b) @ CHR '','' # CHR '' '' # m)"
  by (auto simp: log_line_def)

lemma spec_messageI:
  "spec_message repr (''LONG CREATED --- Size: '' @ str_int n @ '', Cash: '' @ fmt2f c
     @ '', Open: '' @ repr o' @ '', Close: '' @ repr cl)"
  "spec_message repr (''SHORT CREATED --- Size: '' @ str_int n @ '', Cash: '' @ fmt2f c
     @ '', Open: '' @ repr o' @ '', Close: '' @ repr cl)"
  "spec_message repr (''CLOSE LONG POSITION --- Size: '' @ str_int n)"
  "spec_message repr (''CLOSE SHORT POSITION --- Size: '' @ str_int n)"
  "spec_message repr (''BUY EXECUTED --- Price: '' @ fmt2f p @ '', Cost: '' @ fmt2f c
     @ '', Commission: '' @ fmt2f k)"
  "spec_message repr (''SELL EXECUTED --- Price: '' @ fmt2f p @ '', Cost: '' @ fmt2f c
     @ '', Commission: '' @ fmt2f k)"
  "spec_message repr ''Order Failed''"
  "spec_message repr (''OPERATION RESULT --- Gross: '' @ fmt2f g @ '', Net: '' @ fmt2f x)"
  unfolding spec_message_def by blast+

lemma code_messageI:
  "spec_message repr m \<Longrightarrow> code_message repr m"
  "code_message repr (''SELL CREATED --- Size: '' @ str_int n)"
  unfolding code_message_def by blast+

lemma long_notify_order_lines:
  "list_all (log_line (spec_message repr) b) (new_lines w (Inr (long_notify_order b ord w)))"
  by (simp add: long_notify_order_def new_lines_def long_log_def Let_def log_lineI
      spec_messageI [simplified])

lemma long_notify_trade_lines:
  "list_all (log_line (spec_message repr) b) (new_lines w (Inr (long_notify_trade b t w)))"
  by (simp add: long_notify_trade_def new_lines_def long_log_def Let_def log_lineI
      spec_messageI [simplified])

lemma long_next_open_lines:
  "list_all (log_line (code_message repr) b) (new_lines w (long_next_open settle repr b w))"
  by (simp add: long_next_open_def world_simps Let_def log_lineI
      code_messageI(1) [OF spec_messageI(1), simplified] code_messageI(2) [simplified]
      split: sum.splits)

lemma ls_notify_order_lines:
  "list_all (log_line (spec_message repr) b) (new_lines w (Inr (ls_notify_order b ord w)))"
  by (simp add: ls_notify_order_def new_lines_def ls_log_def Let_def log_lineI
      spec_messageI [simplified])

lemma ls_notify_trade_lines:
  "list_all (log_line (spec_message repr) b) (new_lines w (Inr (ls_notify_trade b t w)))"
  by (simp add: ls_notify_trade_def new_lines_def ls_log_def Let_def log_lineI
      spec_messageI [simplified])

lemma ls_next_open_lines:
  "list_all (log_line (spec_message repr) b) (new_lines w (ls_next_open settle repr b w))"
  by (simp add: ls_next_open_def world_simps Let_def log_lineI
      spec_messageI [simplified] split: sum.splits)

text \<open>A callback only appends to what has been printed.\<close>

lemma notify_out_grows:
  "out (long_notify_order b ord w) = out w @ new_lines w (Inr (long_notify_order b ord w))"
  "out (long_notify_trade b t w) = out w @ new_lines w (Inr (long_notify_trade b t w))"
  "out (ls_notify_order b ord w) = out w @ new_lines w (Inr (ls_notify_order b ord w))"
  "out (ls_notify_trade b t w) = out w @ new_lines w (Inr (ls_notify_trade b t w))"
  by (simp_all add: long_notify_order_def long_notify_trade_def ls_notify_order_def
      ls_notify_trade_def world_simps Let_def)

lemma next_open_out_grows:
  "long_next_open settle repr b w = Inr w' \<Longrightarrow> out w' = out w @ new_lines w (Inr w')"
  "ls_next_open settle repr b w = Inr w' \<Longrightarrow> out w' = out w @ new_lines w (Inr w')"
  by (auto simp add: long_next_open_def ls_next_open_def world_simps Let_def
      split: sum.splits if_splits)

section \<open>The claims\<close>

text \<open>
  C1, as amended. In the long-and-short strategy \<^verbatim>\<open>next_open\<close> first computes the size
  from the cash and the open price it finds. When that succeeds with size \<open>sz\<close>: while
  long with a bearish signal it requests a CLOSE and then a SELL of \<open>sz\<close>, while short
  with a bullish signal a CLOSE and then a BUY of \<open>sz\<close>, in that order, whatever the
  broker does on receiving the CLOSE; the quantity is the one computed before the CLOSE
  was requested. When the computation raises (an open price of zero, a quotient that
  overflows), the call raises and requests nothing.
\<close>

theorem ls_reversal_close_then_reopen:
  "(all_in_size (cash (acct w)) (data_open b) = Inr sz \<longrightarrow>
      (0 < position_size (acct w) \<and> data_predicted b < 0 \<longrightarrow>
         new_requests w (ls_next_open settle repr b w) = Some [CLOSE, SELL sz])
      \<and> (position_size (acct w) < 0 \<and> 0 < data_predicted b \<longrightarrow>
         new_requests w (ls_next_open settle repr b w) = Some [CLOSE, BUY sz]))
   \<and> (all_in_size (cash (acct w)) (data_open b) = Inl e \<longrightarrow>
      ls_next_open settle repr b w = Inl e)"
  by (simp add: ls_next_open_def world_simps Let_def)

theorem ls_reversal_close_then_reopen_witness:
  "all_in_size (cash (acct (world_of 10000 10))) (data_open (bar_of (- 1) double_1_6))
      = Inr 6250
   \<and> 0 < position_size (acct (world_of 10000 10))
   \<and> data_predicted (bar_of (- 1) double_1_6) < 0
   \<and> new_requests (world_of 10000 10)
        (ls_next_open (settle_at 10) repr_whole (bar_of (- 1) double_1_6) (world_of 10000 10))
      = Some [CLOSE, SELL 6250]
   \<and> all_in_size (cash (acct (world_of 50 (- 10)))) (data_open (bar_of 1 10)) = Inr 5
   \<and> position_size (acct (world_of 50 (- 10))) < 0 \<and> 0 < data_predicted (bar_of 1 10)
   \<and> new_requests (world_of 50 (- 10))
        (ls_next_open (settle_at 10) repr_whole (bar_of 1 10) (world_of 50 (- 10)))
      = Some [CLOSE, BUY 5]
   \<and> all_in_size (cash (acct (world_of 50 10))) (data_open (bar_of (- 1) 0))
      = Inl ZeroDivisionError
   \<and> ls_next_open (settle_at 10) repr_whole (bar_of (- 1) 0) (world_of 50 10)
      = Inl ZeroDivisionError"
  using ls_reversal_close_then_reopen
      [of "world_of 10000 10" "bar_of (- 1) double_1_6" 6250 "settle_at 10" repr_whole]
    ls_reversal_close_then_reopen
      [of "world_of 50 (- 10)" "bar_of 1 10" 5 "settle_at 10" repr_whole]
    ls_reversal_close_then_reopen
      [of "world_of 50 10" "bar_of (- 1) 0" _ "settle_at 10" repr_whole ZeroDivisionError]
  by (simp add: bar_of_def world_of_def all_in_size_rounds_quotient)
    (simp add: fl_eval)

text \<open>
  C1 as stated fails. Long 10 with cash 50, open 10 and a bearish signal, on a broker that
  settles a CLOSE at once: after the CLOSE the cash is 150, which sizes to 15, yet the
  SELL is for the 5 computed from the 50 held before. And with an open price of zero the
  same period raises \<^verbatim>\<open>ZeroDivisionError\<close> before any request.
\<close>

theorem ls_reversal_size_counterexample:
  "new_requests (world_of 50 10)
      (ls_next_open (settle_at 10) repr_whole (bar_of (- 1) 10) (world_of 50 10))
     = Some [CLOSE, SELL 5]
   \<and> cash (acct (close (settle_at 10) (world_of 50 10))) = 150
   \<and> all_in_size (cash (acct (close (settle_at 10) (world_of 50 10))))
        (data_open (bar_of (- 1) 10)) = Inr 15
   \<and> new_requests (world_of 50 10)
      (ls_next_open (settle_at 10) repr_whole (bar_of (- 1) 10) (world_of 50 10))
     \<noteq> Some [CLOSE, SELL 15]
   \<and> ls_next_open (settle_at 10) repr_whole (bar_of (- 1) 0) (world_of 50 10)
     = Inl ZeroDivisionError"
  by (simp add: ls_next_open_def world_simps bar_of_def world_of_def fl_eval)





text \<open>
  C4, as amended. In the long-only strategy, for every order notification with status
  Completed, \<^verbatim>\<open>notify_order\<close> prints exactly one line, \<^verbatim>\<open>BUY EXECUTED\<close> for a buy
  and \<^verbatim>\<open>SELL EXECUTED\<close> for a sell, with the executed price, cost and commission each
  in the two-decimal format, and clears the order handle; for a buy it also records the
  executed price and commission, for a sell it leaves the recorded ones as they were.
  Nothing else changes.
\<close>

theorem long_notify_order_completed:
  "status ord = Completed \<Longrightarrow>
   long_notify_order b ord w =
     w\<lparr>strat :=
         (if isbuy ord
          then \<lparr>order = None, price = Some (executed_price ord),
                comm = Some (executed_comm ord)\<rparr>
          else (strat w)\<lparr>order := None\<rparr>),
       out := out w @
         [isoformat (datetime b) @ '', '' @ (if isbuy ord then ''BUY'' else ''SELL'')
          @ '' EXECUTED --- Price: '' @ fmt2f (executed_price ord)
          @ '', Cost: '' @ fmt2f (executed_value ord)
          @ '', Commission: '' @ fmt2f (executed_comm ord)]\<rparr>"
  by (simp add: long_notify_order_def world_simps Let_def)

theorem long_notify_order_completed_witness:
  "status (order_of Completed True) = Completed
   \<and> new_lines (world_of 50 10)
        (Inr (long_notify_order (bar_of 1 10) (order_of Completed True) (world_of 50 10)))
     = [''2024-01-02, BUY EXECUTED --- Price: 101.50, Cost: 10000.00, Commission: 5.00'']
   \<and> strat (long_notify_order (bar_of 1 10) (order_of Completed True) (world_of 50 10))
     = \<lparr>order = None, price = Some 101.5, comm = Some 5\<rparr>
   \<and> new_lines (world_of 50 10)
        (Inr (long_notify_order (bar_of 1 10) (order_of Completed False) (world_of 50 10)))
     = [''2024-01-02, SELL EXECUTED --- Price: 101.50, Cost: 10000.00, Commission: 5.00'']"
  using long_notify_order_completed [of "order_of Completed True" "bar_of 1 10" "world_of 50 10"]
    long_notify_order_completed [of "order_of Completed False" "bar_of 1 10" "world_of 50 10"]
  by (simp add: example_simps print_simps new_lines_def)

text \<open>
  C4 as stated fails. In the long-and-short strategy a Completed buy with price 101.5,
  cost 10000 and commission 5 prints nothing and records nothing; in the long-only
  strategy a Completed sell records no price.
\<close>

theorem completed_counterexample:
  "new_lines (world_of 50 10)
      (Inr (ls_notify_order (bar_of 1 10) (order_of Completed True) (world_of 50 10))) = []
   \<and> price (strat (ls_notify_order (bar_of 1 10) (order_of Completed True) (world_of 50 10)))
      = None
   \<and> comm (strat (ls_notify_order (bar_of 1 10) (order_of Completed True) (world_of 50 10)))
      = None
   \<and> price (strat (long_notify_order (bar_of 1 10) (order_of Completed False) (world_of 50 10)))
      = None"
  by (simp add: ls_notify_order_def long_notify_order_def world_simps example_simps Let_def)

text \<open>
  C5. In both strategies, for every order notification with status Canceled, Margin or
  Rejected, \<^verbatim>\<open>notify_order\<close> does the same thing: it prints exactly one
  \<^verbatim>\<open>Order Failed\<close> line and clears the order handle. The requests (no retry), the
  account (no position change) and the recorded price and commission stay as they were.
\<close>

theorem notify_order_failed:
  "status ord \<in> {Canceled, Margin, Rejected} \<Longrightarrow>
   long_notify_order b ord w =
     w\<lparr>strat := (strat w)\<lparr>order := None\<rparr>,
       out := out w @ [isoformat (datetime b) @ '', Order Failed'']\<rparr>
   \<and> ls_notify_order b ord w =
     w\<lparr>strat := (strat w)\<lparr>order := None\<rparr>,
       out := out w @ [isoformat (datetime b) @ '', Order Failed'']\<rparr>"
  by (auto simp add: long_notify_order_def ls_notify_order_def world_simps Let_def)

theorem notify_order_failed_witness:
  "status (order_of Rejected True) \<in> {Canceled, Margin, Rejected}
   \<and> long_notify_order (bar_of 1 10) (order_of Rejected True)
        ((world_of 50 10)\<lparr>strat := fresh\<lparr>order := Some 7\<rparr>\<rparr>)
      = (world_of 50 10)\<lparr>out := [''2024-01-02, Order Failed'']\<rparr>
   \<and> ls_notify_order (bar_of 1 10) (order_of Rejected True)
        ((world_of 50 10)\<lparr>strat := fresh\<lparr>order := Some 7\<rparr>\<rparr>)
      = (world_of 50 10)\<lparr>out := [''2024-01-02, Order Failed'']\<rparr>"
  using notify_order_failed [of "order_of Rejected True" "bar_of 1 10"
      "(world_of 50 10)\<lparr>strat := fresh\<lparr>order := Some 7\<rparr>\<rparr>"]
  by (simp add: example_simps print_simps)

text \<open>
  C6, as amended. With a price of zero the sizing raises \<^verbatim>\<open>ZeroDivisionError\<close>. With
  any other price it takes the float quotient cash / price: when that overflows to an
  infinity it raises \<^verbatim>\<open>OverflowError\<close> (as \<^verbatim>\<open>int\<close> raises \<^verbatim>\<open>ValueError\<close> on a NaN),
  otherwise it returns the quotient truncated towards zero. On doubles that is zero
  exactly when |cash| < |price|: so for cash = 0, but not for every cash <= 0 or
  price < 0. The size is not checked: flat with a bullish signal, the long-only strategy
  requests a BUY of it whatever its sign.
\<close>

theorem all_in_size_zero_iff:
  "all_in_size c 0 = Inl ZeroDivisionError
   \<and> (p \<noteq> 0 \<longrightarrow>
        all_in_size c p =
          (case fl (c / p) of
             Finite q \<Rightarrow> Inr (if 0 \<le> q then \<lfloor>q\<rfloor> else \<lceil>q\<rceil>)
           | Infinity \<Rightarrow> Inl OverflowError
           | NaN \<Rightarrow> Inl ValueError))
   \<and> py_int Infinity = Inl OverflowError \<and> py_int NaN = Inl ValueError
   \<and> (is_double c \<and> is_double p \<and> p \<noteq> 0 \<longrightarrow> (all_in_size c p = Inr 0) = (\<bar>c\<bar> < \<bar>p\<bar>))
   \<and> (p \<noteq> 0 \<longrightarrow> all_in_size 0 p = Inr 0)
   \<and> (position_size (acct w) = 0 \<and> 0 < data_predicted b
        \<and> all_in_size (cash (acct w)) (data_open b) = Inr sz \<longrightarrow>
        new_requests w (long_next_open settle repr b w) = Some [BUY sz])"
proof (intro conjI impI)
  show "all_in_size c 0 = Inl ZeroDivisionError" by (rule all_in_size_zero_price)
  show "py_int Infinity = Inl OverflowError" by (simp add: py_int_def)
  show "py_int NaN = Inl ValueError" by (simp add: py_int_def)
next
  assume "p \<noteq> 0"
  then show "all_in_size c p =
      (case fl (c / p) of
         Finite q \<Rightarrow> Inr (if 0 \<le> q then \<lfloor>q\<rfloor> else \<lceil>q\<rceil>)
       | Infinity \<Rightarrow> Inl OverflowError
       | NaN \<Rightarrow> Inl ValueError)"
    by (simp add: all_in_size_quotient py_int_def)
next
  assume a: "is_double c \<and> is_double p \<and> p \<noteq> 0"
  show "(all_in_size c p = Inr 0) = (\<bar>c\<bar> < \<bar>p\<bar>)"
  proof
    assume "all_in_size c p = Inr 0"
    with a all_in_size_not_small [of p c] show "\<bar>c\<bar> < \<bar>p\<bar>" by force
  next
    assume "\<bar>c\<bar> < \<bar>p\<bar>"
    with a show "all_in_size c p = Inr 0" by (intro all_in_size_doubles_small) simp_all
  qed
next
  assume "p \<noteq> 0"
  then show "all_in_size 0 p = Inr 0"
    by (simp add: all_in_size_quotient py_int_def fl_def)
next
  assume "position_size (acct w) = 0 \<and> 0 < data_predicted b
      \<and> all_in_size (cash (acct w)) (data_open b) = Inr sz"
  then show "new_requests w (long_next_open settle repr b w) = Some [BUY sz]"
    by (simp add: long_next_open_def world_simps Let_def)
qed

theorem all_in_size_zero_iff_witness:
  "is_double (- 5) \<and> is_double (- 10) \<and> all_in_size (- 5) (- 10) = Inr 0
   \<and> all_in_size 0 (- 10) = Inr 0
   \<and> all_in_size (- 5) 0 = Inl ZeroDivisionError
   \<and> all_in_size (- 100) 33 = Inr (- 3)
   \<and> new_requests (world_of (- 100) 0)
        (long_next_open queue_only repr_whole (bar_of 1 33) (world_of (- 100) 0))
      = Some [BUY (- 3)]"
proof -
  have d: "is_double (- 5)" "is_double (- 10)" "all_in_size (- 100) 33 = Inr (- 3)"
    by (simp_all add: fl_eval)
  show ?thesis
    using all_in_size_zero_iff [of "- 5" "- 10" "world_of (- 100) 0" "bar_of 1 33" "- 3"
        queue_only repr_whole]
      all_in_size_zero_iff [of "- 5" "- 10"] d
    by (simp add: bar_of_def world_of_def)
qed

text \<open>
  C6 as stated fails: a negative price or a negative cash gives a size that is not zero,
  a price of zero raises, and the order is requested all the same.
\<close>

theorem all_in_size_nonpositive_counterexample:
  "all_in_size 100 (- 33) = Inr (- 3) \<and> all_in_size (- 100) 33 = Inr (- 3)
   \<and> all_in_size 100 0 = Inl ZeroDivisionError
   \<and> new_requests (world_of (- 100) 0)
        (long_next_open queue_only repr_whole (bar_of 1 33) (world_of (- 100) 0))
      = Some [BUY (- 3)]"
  by (simp add: long_next_open_def world_simps example_simps fl_eval)

text \<open>
  C7. In both strategies, for every trade notification: a closed trade makes
  \<^verbatim>\<open>notify_trade\<close> print exactly one \<^verbatim>\<open>OPERATION RESULT\<close> line with the gross and the
  net result, each in the two-decimal format (gross 120.4567 and net 110.1 print as
  120.46 and 110.10), and change nothing else; an open trade changes nothing.
\<close>

theorem notify_trade_report:
  "long_notify_trade b t w =
     (if isclosed t
      then w\<lparr>out := out w @ [isoformat (datetime b) @ '', OPERATION RESULT --- Gross: ''
                 @ fmt2f (pnl t) @ '', Net: '' @ fmt2f (pnlcomm t)]\<rparr>
      else w)
   \<and> ls_notify_trade b t w = long_notify_trade b t w
   \<and> ''OPERATION RESULT --- Gross: '' @ fmt2f 120.4567 @ '', Net: '' @ fmt2f 110.1
      = ''OPERATION RESULT --- Gross: 120.46, Net: 110.10''"
proof (intro conjI)
  show "long_notify_trade b t w =
     (if isclosed t
      then w\<lparr>out := out w @ [isoformat (datetime b) @ '', OPERATION RESULT --- Gross: ''
                 @ fmt2f (pnl t) @ '', Net: '' @ fmt2f (pnlcomm t)]\<rparr>
      else w)"
    by (simp add: long_notify_trade_def long_log_def)
  show "ls_notify_trade b t w = long_notify_trade b t w"
    by (simp add: long_notify_trade_def ls_notify_trade_def long_log_def ls_log_def)
  show "''OPERATION RESULT --- Gross: '' @ fmt2f 120.4567 @ '', Net: '' @ fmt2f 110.1
      = ''OPERATION RESULT --- Gross: 120.46, Net: 110.10''"
    by (simp add: fmt2f_def round_half_even_def Let_def digit_char_def)
qed

theorem notify_trade_report_witness:
  "new_lines (world_of 50 0)
      (Inr (ls_notify_trade (bar_of 1 10)
         \<lparr>isclosed = True, pnl = 120.4567, pnlcomm = 110.1\<rparr> (world_of 50 0)))
     = [''2024-01-02, OPERATION RESULT --- Gross: 120.46, Net: 110.10'']
   \<and> long_notify_trade (bar_of 1 10)
         \<lparr>isclosed = False, pnl = 120.4567, pnlcomm = 110.1\<rparr> (world_of 50 0)
     = world_of 50 0"
  using notify_trade_report [of "bar_of 1 10"
      "\<lparr>isclosed = True, pnl = 120.4567, pnlcomm = 110.1\<rparr>" "world_of 50 0"]
    notify_trade_report [of "bar_of 1 10"
      "\<lparr>isclosed = False, pnl = 120.4567, pnlcomm = 110.1\<rparr>" "world_of 50 0"]
  by (simp add: example_simps print_simps new_lines_def)

text \<open>
  C8, as amended. Every line a callback of either strategy prints is the ISO date of the
  current bar, a comma and a space, and a message that matches one of the literal
  patterns with its fields filled in: the eight of the specification for the
  long-and-short strategy and for the notifications of the long-only one, and those
  eight or \<^verbatim>\<open>SELL CREATED --- Size: {n}\<close> for \<^verbatim>\<open>next_open\<close> of the long-only strategy.
\<close>

theorem log_lines_match_patterns:
  "list_all (log_line (spec_message repr) b) (new_lines w (Inr (long_notify_order b ord w)))
   \<and> list_all (log_line (spec_message repr) b) (new_lines w (Inr (long_notify_trade b t w)))
   \<and> list_all (log_line (code_message repr) b) (new_lines w (long_next_open settle repr b w))
   \<and> list_all (log_line (spec_message repr) b) (new_lines w (Inr (ls_notify_order b ord w)))
   \<and> list_all (log_line (spec_message repr) b) (new_lines w (Inr (ls_notify_trade b t w)))
   \<and> list_all (log_line (spec_message repr) b) (new_lines w (ls_next_open settle repr b w))"
  by (intro conjI long_notify_order_lines long_notify_trade_lines long_next_open_lines
      ls_notify_order_lines ls_notify_trade_lines ls_next_open_lines)

theorem log_lines_match_patterns_witness:
  "log_line (code_message repr_whole) (bar_of (- 1) 10)
      ''2024-01-02, SELL CREATED --- Size: 5''
   \<and> log_line (spec_message repr_whole) (bar_of (- 1) 10)
      ''2024-01-02, CLOSE LONG POSITION --- Size: 5''
   \<and> log_line (spec_message repr_whole) (bar_of (- 1) 10)
      ''2024-01-02, BUY EXECUTED --- Price: 101.50, Cost: 10000.00, Commission: 5.00''"
  using log_lines_match_patterns [of repr_whole "bar_of (- 1) 10" "world_of 50 5"
      "order_of Completed True" "\<lparr>isclosed = True, pnl = 1, pnlcomm = 1\<rparr>" queue_only]
  by (simp add: long_next_open_def ls_next_open_def long_notify_order_def world_simps
      example_simps print_simps fl_eval)

text \<open>
  C8 as stated fails: leaving a position of 5, the long-only strategy prints
  \<^verbatim>\<open>SELL CREATED --- Size: 5\<close>, which matches none of the eight patterns.
\<close>

theorem sell_created_counterexample:
  "new_lines (world_of 50 5)
      (long_next_open queue_only repr_whole (bar_of (- 1) 10) (world_of 50 5))
     = [''2024-01-02, SELL CREATED --- Size: 5'']
   \<and> \<not> list_all (log_line (spec_message repr_whole) (bar_of (- 1) 10))
        (new_lines (world_of 50 5)
           (long_next_open queue_only repr_whole (bar_of (- 1) 10) (world_of 50 5)))"
  by (simp add: long_next_open_def world_simps Let_def example_simps print_simps
      log_line_def spec_message_def)

text \<open>
  C9. In both strategies, for every order notification whose status is neither Submitted
  nor Accepted, \<^verbatim>\<open>notify_order\<close> returns with the order handle cleared. For a status
  neither strategy names (Created, Partial, Expired) that is all it does: no line is
  printed and nothing is raised; in the long-and-short strategy the same holds for
  Completed.
\<close>

theorem notify_order_clears_handle:
  "status ord \<notin> {Submitted, Accepted} \<Longrightarrow>
   order (strat (long_notify_order b ord w)) = None
   \<and> order (strat (ls_notify_order b ord w)) = None
   \<and> (status ord \<in> {Created, Partial, Expired} \<longrightarrow>
        long_notify_order b ord w = w\<lparr>strat := (strat w)\<lparr>order := None\<rparr>\<rparr>)
   \<and> (status ord \<in> {Created, Partial, Expired, Completed} \<longrightarrow>
        ls_notify_order b ord w = w\<lparr>strat := (strat w)\<lparr>order := None\<rparr>\<rparr>)"
  by (auto simp add: long_notify_order_def ls_notify_order_def world_simps Let_def)

theorem notify_order_clears_handle_witness:
  "status (order_of Partial True) \<notin> {Submitted, Accepted}
   \<and> status (order_of Partial True) \<in> {Created, Partial, Expired}
   \<and> long_notify_order (bar_of 1 10) (order_of Partial True)
        ((world_of 50 10)\<lparr>strat := fresh\<lparr>order := Some 7\<rparr>\<rparr>)
      = world_of 50 10
   \<and> ls_notify_order (bar_of 1 10) (order_of Partial True)
        ((world_of 50 10)\<lparr>strat := fresh\<lparr>order := Some 7\<rparr>\<rparr>)
      = world_of 50 10"
  using notify_order_clears_handle [of "order_of Partial True" "bar_of 1 10"
      "(world_of 50 10)\<lparr>strat := fresh\<lparr>order := Some 7\<rparr>\<rparr>"]
  by (simp add: example_simps)

text \<open>
  C10. In both strategies, flat with 0 < cash < open price (both of them doubles): on a
  bullish signal \<^verbatim>\<open>next_open\<close> prints the \<^verbatim>\<open>LONG CREATED\<close> line with \<^verbatim>\<open>Size: 0\<close> and
  requests a BUY of 0; on a bearish signal the long-and-short strategy prints the
  \<^verbatim>\<open>SHORT CREATED\<close> line with \<^verbatim>\<open>Size: 0\<close> and requests a SELL of 0. No test on the
  size stands before the request.
\<close>

theorem zero_size_entry_still_submitted:
  assumes "position_size (acct w) = 0" and "0 < cash (acct w)"
    and "cash (acct w) < data_open b"
    and "is_double (cash (acct w))" and "is_double (data_open b)"
  shows "(0 < data_predicted b \<longrightarrow>
      long_next_open settle repr b w =
        Inr (w\<lparr>acct := settle (BUY 0) (acct w), requests := requests w @ [BUY 0],
               out := out w @ [isoformat (datetime b) @ '', LONG CREATED --- Size: 0, Cash: ''
                 @ fmt2f (cash (acct w)) @ '', Open: '' @ repr (data_open b)
                 @ '', Close: '' @ repr (data_close b)]\<rparr>)
      \<and> ls_next_open settle repr b w = long_next_open settle repr b w)
   \<and> (data_predicted b < 0 \<longrightarrow>
      ls_next_open settle repr b w =
        Inr (w\<lparr>acct := settle (SELL 0) (acct w), requests := requests w @ [SELL 0],
               out := out w @ [isoformat (datetime b) @ '', SHORT CREATED --- Size: 0, Cash: ''
                 @ fmt2f (cash (acct w)) @ '', Open: '' @ repr (data_open b)
                 @ '', Close: '' @ repr (data_close b)]\<rparr>))"
proof -
  have "\<bar>cash (acct w)\<bar> < \<bar>data_open b\<bar>" using assms(2,3) by simp
  with assms(4,5) have sz: "all_in_size (cash (acct w)) (data_open b) = Inr 0"
    by (rule all_in_size_doubles_small)
  show ?thesis
    using assms(1)
    by (simp add: long_next_open_def ls_next_open_def sz world_simps Let_def
        str_int_def digit_char_def)
qed

theorem zero_size_entry_still_submitted_witness:
  "position_size (acct (world_of 5 0)) = 0 \<and> 0 < cash (acct (world_of 5 0))
   \<and> cash (acct (world_of 5 0)) < data_open (bar_of 1 10)
   \<and> is_double (cash (acct (world_of 5 0))) \<and> is_double (data_open (bar_of 1 10))
   \<and> 0 < data_predicted (bar_of 1 10) \<and> data_predicted (bar_of (- 1) 10) < 0
   \<and> long_next_open queue_only repr_whole (bar_of 1 10) (world_of 5 0) =
       Inr ((world_of 5 0)\<lparr>requests := [BUY 0], out :=
         [''2024-01-02, LONG CREATED --- Size: 0, Cash: 5.00, Open: 10.0, Close: 11.0'']\<rparr>)
   \<and> ls_next_open queue_only repr_whole (bar_of (- 1) 10) (world_of 5 0) =
       Inr ((world_of 5 0)\<lparr>requests := [SELL 0], out :=
         [''2024-01-02, SHORT CREATED --- Size: 0, Cash: 5.00, Open: 10.0, Close: 11.0'']\<rparr>)"
proof -
  have d: "is_double 5" "is_double 10" by (rule small_doubles)+
  show ?thesis
    using zero_size_entry_still_submitted
        [of "world_of 5 0" "bar_of 1 10" queue_only repr_whole]
      zero_size_entry_still_submitted
        [of "world_of 5 0" "bar_of (- 1) 10" queue_only repr_whole] d
    by (simp add: example_simps print_simps)
qed

end
